theory Spec2Isabelle
  imports Complex_Main
begin

section \<open>Data model of the drawing tool\<close>

text \<open>
  The drawing tool exists in two listings of the same file: a first one (lines 1-713) and an
  annotated, extended one (lines 715-1772). Functions of the first listing keep their names with
  the suffix \<open>_v1\<close>; functions of the annotated listing keep their names unchanged.

  JavaScript numbers are IEEE doubles. A double that is a number is modelled by the
  \<open>real\<close> it denotes; the result of \<open>parseFloat\<close>, which may be \<open>NaN\<close>, is a
  \<open>real option\<close> with \<open>None\<close> for \<open>NaN\<close>. A comparison of two doubles is the
  comparison of the reals. An arithmetic operation returns the rounded exact result and a
  decimal literal denotes the rounded decimal; the rounding function is a parameter of the
  model, written \<open>rnd\<close> or \<open>js_round\<close>, so that every statement holds for the rounding
  of doubles in particular. Integers such as 90, 180 and 100 are doubles as they are.
  Overflow, the infinities and a \<open>NaN\<close> produced by an operation are not modelled. A
  coordinate is a two-element array.

  The listings use \<open>Draw\<close>, \<open>Point\<close>, \<open>LineString\<close>, \<open>turf\<close> and \<open>Vue\<close> without
  importing them, and the first listing assigns \<open>highlightSource\<close> without declaring
  it. These names are taken to be bound by the page; otherwise no function modelled here
  would run at all. The name \<open>ol\<close>, which only the rejection branch of the \<open>drawend\<close>
  handler uses, is a parameter of that handler.
\<close>

type_synonym coord = "real \<times> real"

type_synonym jsnum = "real option"

type_synonym 'n extent = "'n \<times> 'n \<times> 'n \<times> 'n"

datatype geometry = Point coord | LineString "coord list" | Polygon "coord list list"

record feature =
  fid :: nat
  geom :: geometry

text \<open>
  The module-level variables the modelled functions read or write. \<open>drawSource\<close> is the array
  that \<open>drawSource.getFeatures()\<close> returns, \<open>highlightSource\<close> holds the geometries of the
  highlight features, \<open>rangeLayer\<close> the geometries of the range layer's source. The type
  parameter is the type of the numbers stored in \<open>rangeExtent\<close>.
\<close>

record 'n app_state =
  drawSource :: "feature list"
  highlightSource :: "geometry list"
  rangeExtent :: "'n extent option"
  rangeLayer :: "geometry list"
  dialogVisible :: bool
  rangeForm :: "string \<times> string \<times> string \<times> string"

section \<open>The range dialog: confirmRange\<close>

datatype range_error =
  InvalidNumber | LonOutOfRange | LatOutOfRange | MinNotLessThanMax | RangeTooSmall

datatype range_outcome = FormInvalid | RangeRejected range_error | RangeAccepted

text \<open>
  \<open>confirmRange\<close> of the annotated listing (lines 1572-1678). \<open>rnd\<close> is the rounding of
  double arithmetic, \<open>valid\<close> is the flag the form validation passes to the callback, the
  four \<open>jsnum\<close> are the values \<open>parseFloat\<close> returns for the four form fields,
  \<open>fromLonLat\<close> is the projection function of the map library. Each
  \<open>this.$message.error(...); return\<close> is a \<open>RangeRejected\<close> outcome with the state as it
  was. The two spans of lines 1604-1605 are subtractions of doubles and the bound of line
  1606 is a decimal literal, so all three are rounded. The animation of the map view is not
  part of the state.
\<close>

definition confirmRange ::
  "(real \<Rightarrow> real) \<Rightarrow> (coord \<Rightarrow> coord) \<Rightarrow> bool \<Rightarrow> jsnum \<Rightarrow> jsnum \<Rightarrow> jsnum \<Rightarrow> jsnum \<Rightarrow>
     real app_state \<Rightarrow> range_outcome \<times> real app_state" where
  "confirmRange rnd fromLonLat valid pminX pminY pmaxX pmaxY s =
     (if valid then
        (case pminX of None \<Rightarrow> (RangeRejected InvalidNumber, s) | Some minX \<Rightarrow>
         case pminY of None \<Rightarrow> (RangeRejected InvalidNumber, s) | Some minY \<Rightarrow>
         case pmaxX of None \<Rightarrow> (RangeRejected InvalidNumber, s) | Some maxX \<Rightarrow>
         case pmaxY of None \<Rightarrow> (RangeRejected InvalidNumber, s) | Some maxY \<Rightarrow>
           if minX < - 180 \<or> minX > 180 \<or> maxX < - 180 \<or> maxX > 180
           then (RangeRejected LonOutOfRange, s)
           else if minY < - 90 \<or> minY > 90 \<or> maxY < - 90 \<or> maxY > 90
           then (RangeRejected LatOutOfRange, s)
           else if minX \<ge> maxX \<or> minY \<ge> maxY
           then (RangeRejected MinNotLessThanMax, s)
           else
             let xRange = rnd (maxX - minX); yRange = rnd (maxY - minY) in
             if xRange < rnd 0.001 \<or> yRange < rnd 0.001
             then (RangeRejected RangeTooSmall, s)
             else
               let minCoord = fromLonLat (minX, minY);
                   maxCoord = fromLonLat (maxX, maxY);
                   rangeFeature = Polygon [[
                     (fst minCoord, snd minCoord),
                     (fst maxCoord, snd minCoord),
                     (fst maxCoord, snd maxCoord),
                     (fst minCoord, snd maxCoord),
                     (fst minCoord, snd minCoord)]]
               in (RangeAccepted,
                   s\<lparr>rangeExtent := Some (minX, minY, maxX, maxY),
                     rangeLayer := [rangeFeature],
                     dialogVisible := False,
                     rangeForm := ([], [], [], [])\<rparr>))
      else (FormInvalid, s))"

text \<open>
  \<open>confirmRange\<close> of the first listing (lines 657-685): only the ordering is compared, and a
  \<open>NaN\<close> makes the comparison false, so the parsed values are stored as they are.
\<close>

definition js_ge :: "jsnum \<Rightarrow> jsnum \<Rightarrow> bool" where
  "js_ge a b = (case a of None \<Rightarrow> False | Some x \<Rightarrow> (case b of None \<Rightarrow> False | Some y \<Rightarrow> x \<ge> y))"

definition confirmRange_v1 ::
  "bool \<Rightarrow> jsnum \<Rightarrow> jsnum \<Rightarrow> jsnum \<Rightarrow> jsnum \<Rightarrow>
     jsnum app_state \<Rightarrow> range_outcome \<times> jsnum app_state" where
  "confirmRange_v1 valid minX minY maxX maxY s =
     (if valid then
        if js_ge minX maxX \<or> js_ge minY maxY
        then (RangeRejected MinNotLessThanMax, s)
        else (RangeAccepted,
              s\<lparr>rangeExtent := Some (minX, minY, maxX, maxY),
                dialogVisible := False,
                rangeForm := ([], [], [], [])\<rparr>)
      else (FormInvalid, s))"

text \<open>
  The rules of a range extent in the words of the specification: minimum strictly below
  maximum on both axes, all four values inside the WGS84 domain, and a span of at least
  0.001 degrees on both axes.
\<close>

definition ordering_ok :: "real extent \<Rightarrow> bool" where
  "ordering_ok e = (case e of (minLon, minLat, maxLon, maxLat) \<Rightarrow> minLon < maxLon \<and> minLat < maxLat)"

definition domain_ok :: "real extent \<Rightarrow> bool" where
  "domain_ok e = (case e of (minLon, minLat, maxLon, maxLat) \<Rightarrow>
     - 180 \<le> minLon \<and> minLon \<le> 180 \<and> - 180 \<le> maxLon \<and> maxLon \<le> 180 \<and>
     - 90 \<le> minLat \<and> minLat \<le> 90 \<and> - 90 \<le> maxLat \<and> maxLat \<le> 90)"

definition span_ok :: "real extent \<Rightarrow> bool" where
  "span_ok e = (case e of (minLon, minLat, maxLon, maxLat) \<Rightarrow>
     maxLon - minLon \<ge> 0.001 \<and> maxLat - minLat \<ge> 0.001)"

text \<open>
  The span rule as doubles decide it: the rounded difference is at least the rounded
  literal. With the identity as rounding this is \<open>span_ok\<close>.
\<close>

definition span_ok_js :: "(real \<Rightarrow> real) \<Rightarrow> real extent \<Rightarrow> bool" where
  "span_ok_js rnd e = (case e of (minLon, minLat, maxLon, maxLat) \<Rightarrow>
     rnd (maxLon - minLon) \<ge> rnd 0.001 \<and> rnd (maxLat - minLat) \<ge> rnd 0.001)"

text \<open>
  The four parsed inputs pass the annotated listing when all are numbers and the three
  rules hold, the span rule as doubles decide it.
\<close>

definition inputs_ok :: "(real \<Rightarrow> real) \<Rightarrow> jsnum \<Rightarrow> jsnum \<Rightarrow> jsnum \<Rightarrow> jsnum \<Rightarrow> bool" where
  "inputs_ok rnd a b c d =
     (case (a, b, c, d) of
        (Some minLon, Some minLat, Some maxLon, Some maxLat) \<Rightarrow>
          ordering_ok (minLon, minLat, maxLon, maxLat) \<and>
          domain_ok (minLon, minLat, maxLon, maxLat) \<and>
          span_ok_js rnd (minLon, minLat, maxLon, maxLat)
      | _ \<Rightarrow> False)"

text \<open>
  The four parsed inputs pass the first listing when neither comparison of line 665 holds;
  a comparison with \<open>NaN\<close> does not hold.
\<close>

definition inputs_ok_v1 :: "jsnum \<Rightarrow> jsnum \<Rightarrow> jsnum \<Rightarrow> jsnum \<Rightarrow> bool" where
  "inputs_ok_v1 a b c d = (\<not> js_ge a c \<and> \<not> js_ge b d)"

text \<open>Sample states with a range installed, one for each listing.\<close>

definition sample_state :: "real app_state" where
  "sample_state =
     \<lparr>drawSource = [], highlightSource = [], rangeExtent = Some (0, 0, 1, 1),
      rangeLayer = [], dialogVisible = True, rangeForm = (''10'', ''0'', ''0'', ''10'')\<rparr>"

definition sample_state_v1 :: "jsnum app_state" where
  "sample_state_v1 =
     \<lparr>drawSource = [], highlightSource = [], rangeExtent = Some (Some 0, Some 0, Some 1, Some 1),
      rangeLayer = [], dialogVisible = True, rangeForm = (''0'', ''0'', ''0.0005'', ''0.0005'')\<rparr>"

section \<open>The drawend handler: admission of a drawn feature\<close>

text \<open>
  The test written out three times in the handler of the annotated listing (lines 1052-1053,
  1061-1062, 1073-1074): the converted coordinate lies outside the range.
\<close>

definition outsideRange :: "real extent \<Rightarrow> coord \<Rightarrow> bool" where
  "outsideRange r lonLat =
     (case r of (r0, r1, r2, r3) \<Rightarrow>
        fst lonLat < r0 \<or> fst lonLat > r2 \<or> snd lonLat < r1 \<or> snd lonLat > r3)"

text \<open>The loop over the vertices of a line, left at the first vertex outside the range.\<close>

fun coordsWithinRange :: "(coord \<Rightarrow> coord) \<Rightarrow> real extent \<Rightarrow> coord list \<Rightarrow> bool" where
  "coordsWithinRange toLonLat r [] = True"
| "coordsWithinRange toLonLat r (c # cs) =
     (if outsideRange r (toLonLat c) then False else coordsWithinRange toLonLat r cs)"

text \<open>The loop over the rings of a polygon, left after the first ring with a vertex outside.\<close>

fun ringsWithinRange :: "(coord \<Rightarrow> coord) \<Rightarrow> real extent \<Rightarrow> coord list list \<Rightarrow> bool" where
  "ringsWithinRange toLonLat r [] = True"
| "ringsWithinRange toLonLat r (ring # rings) =
     (if coordsWithinRange toLonLat r ring then ringsWithinRange toLonLat r rings else False)"

definition isWithinRange :: "(coord \<Rightarrow> coord) \<Rightarrow> real extent \<Rightarrow> geometry \<Rightarrow> bool" where
  "isWithinRange toLonLat r g =
     (case g of
        Point c \<Rightarrow> \<not> outsideRange r (toLonLat c)
      | LineString cs \<Rightarrow> coordsWithinRange toLonLat r cs
      | Polygon rings \<Rightarrow> ringsWithinRange toLonLat r rings)"

text \<open>
  \<open>drawSource.removeFeature(feature)\<close>: the feature object leaves the source. A source holds a
  feature object at most once; objects are told apart by \<open>fid\<close>.
\<close>

definition removeFeature :: "feature \<Rightarrow> feature list \<Rightarrow> feature list" where
  "removeFeature f fs = filter (\<lambda>g. fid g \<noteq> fid f) fs"

datatype draw_outcome = Admitted | OutOfRange

datatype draw_exn = ReferenceError

text \<open>
  The \<open>drawend\<close> handler of the annotated listing (lines 1038-1127). The rejection branch
  first computes the overlap of the drawing with the range through \<open>ol.extent\<close> (lines
  1097-1099). The listing imports single modules of the map library and binds the name
  \<open>ol\<close> nowhere, so whether the page binds it is the parameter \<open>olBound\<close>; when it does
  not, line 1097 throws, before the notification of line 1114 and the removal of line 1123.
  The notification shown on rejection is the outcome \<open>OutOfRange\<close>; its text is not
  modelled.
\<close>

definition drawend ::
  "bool \<Rightarrow> (coord \<Rightarrow> coord) \<Rightarrow> feature \<Rightarrow> real app_state \<Rightarrow>
     (draw_exn + draw_outcome) \<times> real app_state" where
  "drawend olBound toLonLat feature s =
     (case rangeExtent s of
        None \<Rightarrow> (Inr Admitted, s)
      | Some r \<Rightarrow>
          if isWithinRange toLonLat r (geom feature) then (Inr Admitted, s)
          else if \<not> olBound then (Inl ReferenceError, s)
          else (Inr OutOfRange, s\<lparr>drawSource := removeFeature feature (drawSource s)\<rparr>))"

text \<open>
  The handler is registered on the \<open>Draw\<close> interaction created with \<open>source: drawSource\<close>
  (lines 1029-1032, 1038). The interaction is code of the map library: when a sketch is
  finished it first dispatches \<open>drawend\<close> to the registered handlers and only then adds the
  sketched feature to its source; an exception of a handler leaves it before the feature is
  added. This is the part of the library that decides what \<open>drawSource.removeFeature\<close> of
  line 1123 finds.
\<close>

definition finishDrawing ::
  "bool \<Rightarrow> (coord \<Rightarrow> coord) \<Rightarrow> feature \<Rightarrow> real app_state \<Rightarrow>
     (draw_exn + draw_outcome) \<times> real app_state" where
  "finishDrawing olBound toLonLat feature s =
     (case drawend olBound toLonLat feature s of
        (Inl e, s') \<Rightarrow> (Inl e, s')
      | (Inr outcome, s') \<Rightarrow> (Inr outcome, s'\<lparr>drawSource := drawSource s' @ [feature]\<rparr>))"

text \<open>
  In the words of the specification: the coordinates of a geometry, and a coordinate inside
  the inclusive bounds of an extent.
\<close>

fun coordinates :: "geometry \<Rightarrow> coord list" where
  "coordinates (Point c) = [c]"
| "coordinates (LineString cs) = cs"
| "coordinates (Polygon rings) = concat rings"

definition inside :: "real extent \<Rightarrow> coord \<Rightarrow> bool" where
  "inside e c = (case e of (minLon, minLat, maxLon, maxLat) \<Rightarrow>
     minLon \<le> fst c \<and> fst c \<le> maxLon \<and> minLat \<le> snd c \<and> snd c \<le> maxLat)"

section \<open>The geometry library as a parameter\<close>

text \<open>
  The topology check calls the geometry library \<open>turf\<close> for every geometric fact. The library
  is not part of the sources; it is a parameter of the model. Every library call either
  throws (\<open>Inl\<close>) or returns (\<open>Inr\<close>); the library is taken to be a function of its
  arguments. The helpers \<open>turf.point\<close>, \<open>turf.lineString\<close> and \<open>turf.polygon\<close> return the
  coordinates of the feature they build. \<open>turf.point\<close> also receives \<open>undefined\<close> (\<open>None\<close>)
  when the check reads the first or last vertex of an empty line. \<open>turf.lineIntersect\<close>
  returns the number of features of its result collection. \<open>turf.intersect\<close> and
  \<open>turf.union\<close> return a geometry or \<open>null\<close>.
\<close>

datatype exn = TypeError | LibraryError string

datatype tgeom =
  TPoint coord | TLineString "coord list" | TPolygon "coord list list"
  | TMultiPolygon "coord list list list"

record turf =
  turf_point :: "coord option \<Rightarrow> exn + coord"
  turf_lineString :: "coord list \<Rightarrow> exn + coord list"
  turf_polygon :: "coord list list \<Rightarrow> exn + coord list list"
  turf_booleanValid :: "tgeom \<Rightarrow> exn + bool"
  turf_area :: "tgeom \<Rightarrow> exn + real"
  turf_length :: "tgeom \<Rightarrow> exn + real"
  turf_distance :: "tgeom \<Rightarrow> tgeom \<Rightarrow> exn + real"
  turf_booleanOverlap :: "tgeom \<Rightarrow> tgeom \<Rightarrow> exn + bool"
  turf_booleanCrosses :: "tgeom \<Rightarrow> tgeom \<Rightarrow> exn + bool"
  turf_booleanIntersects :: "tgeom \<Rightarrow> tgeom \<Rightarrow> exn + bool"
  turf_intersect :: "tgeom \<Rightarrow> tgeom \<Rightarrow> exn + tgeom option"
  turf_booleanContains :: "tgeom \<Rightarrow> tgeom \<Rightarrow> exn + bool"
  turf_distanceToLine :: "tgeom \<Rightarrow> tgeom \<Rightarrow> exn + real"
  turf_union :: "tgeom \<Rightarrow> tgeom \<Rightarrow> exn + tgeom option"
  turf_lineIntersect :: "tgeom \<Rightarrow> tgeom \<Rightarrow> exn + nat"

text \<open>
  The environment of the topology check: the library together with the rounding of double
  arithmetic.
\<close>

record env = turf +
  js_round :: "real \<Rightarrow> real"

text \<open>
  An element of \<open>turfFeatures\<close>: the library geometry with the properties \<open>index\<close> (one more
  than the position), \<open>type\<close> (the constructor name of the drawn geometry) and
  \<open>originalIndex\<close> (the position).
\<close>

datatype gtype = PointT | LineStringT | PolygonT

record tfeature =
  tgeometry :: tgeom
  index :: nat
  ftype :: gtype
  originalIndex :: nat

text \<open>
  One constructor for each message the check pushes to \<open>errors\<close>, with the values its
  template interpolates; the numbers are kept as they are, not formatted by \<open>toFixed\<close>.
  In the order of the listing: polygon self-intersecting (line 258), too few points (265),
  not closed (273), area too small (280), polygon invalid with the caught message (285), line
  with fewer than two points (296), line too short (303), line with a repeated point (312),
  two points too close (327), overlap (353), lines cross (365), line crosses polygon (375,
  385), polygons intersect with the area (405), intersection area failed (411), polygon
  contains polygon with the percentage (422, 429), polygons adjacent (441), gap between
  polygons with its area (458), line inside polygon (473, 498), line meets polygon boundary
  with the number of points (484, 509), potential dangling endpoint with the distance (550),
  single endpoint connection (556), shared boundary points with their number (591).
\<close>

datatype violation =
    PolySelfIntersect nat
  | PolyTooFewPoints nat
  | PolyUnclosed nat
  | PolyAreaTooSmall nat
  | PolyInvalid nat exn
  | LineTooFewPoints nat
  | LineTooShort nat
  | LineDuplicatePoint nat
  | PointsTooClose nat nat real
  | Overlap gtype nat gtype nat
  | LinesCross nat nat
  | LineCrossesPolygon nat nat
  | PolygonsIntersect nat nat real
  | PolygonsIntersectFailed nat nat
  | PolygonContains nat nat real
  | PolygonsAdjacent nat nat
  | PolygonGap nat nat real
  | LineInsidePolygon nat nat
  | LineBoundaryPoints nat nat nat
  | DanglingCandidate nat nat real
  | SingleEndpointConnection nat nat
  | SharedBoundaryPoints nat nat nat

text \<open>
  The two accumulators of the check: the array \<open>errors\<close> and the set \<open>errorFeatureIndices\<close>,
  a JavaScript \<open>Set\<close>, which keeps its members in the order of their first insertion.
\<close>

type_synonym acc = "violation list \<times> nat list"

definition set_add :: "nat \<Rightarrow> nat list \<Rightarrow> nat list" where
  "set_add x xs = (if x \<in> set xs then xs else xs @ [x])"

text \<open>A message pushed together with both features marked, and a message pushed alone.\<close>

definition flagged :: "tfeature \<Rightarrow> tfeature \<Rightarrow> violation \<Rightarrow> acc \<Rightarrow> acc" where
  "flagged feature1 feature2 v a =
     (fst a @ [v], set_add (originalIndex feature2) (set_add (originalIndex feature1) (snd a)))"

definition noted :: "violation \<Rightarrow> acc \<Rightarrow> acc" where
  "noted v a = (fst a @ [v], snd a)"

section \<open>checkTopology: conversion of the drawn features\<close>

text \<open>
  The callback of \<open>features.map\<close> (lines 225-244, 1173-1198). It runs outside every
  \<open>try\<close>, so a helper that throws ends the whole check. A polygon without rings makes
  \<open>getCoordinates()[0].map\<close> a call on \<open>undefined\<close>, a \<open>TypeError\<close>.
\<close>

definition toTurf :: "env \<Rightarrow> (coord \<Rightarrow> coord) \<Rightarrow> nat \<Rightarrow> feature \<Rightarrow> exn + tfeature" where
  "toTurf T toLonLat pos feature =
     (case geom feature of
        Point c \<Rightarrow>
          (case turf_point T (Some (toLonLat c)) of
             Inl e \<Rightarrow> Inl e
           | Inr p \<Rightarrow> Inr \<lparr>tgeometry = TPoint p, index = pos + 1, ftype = PointT, originalIndex = pos\<rparr>)
      | LineString cs \<Rightarrow>
          (case turf_lineString T (map toLonLat cs) of
             Inl e \<Rightarrow> Inl e
           | Inr l \<Rightarrow> Inr \<lparr>tgeometry = TLineString l, index = pos + 1, ftype = LineStringT, originalIndex = pos\<rparr>)
      | Polygon rings \<Rightarrow>
          (case rings of
             [] \<Rightarrow> Inl TypeError
           | ring # _ \<Rightarrow>
               (case turf_polygon T [map toLonLat ring] of
                  Inl e \<Rightarrow> Inl e
                | Inr p \<Rightarrow> Inr \<lparr>tgeometry = TPolygon p, index = pos + 1, ftype = PolygonT, originalIndex = pos\<rparr>)))"

fun convertFrom :: "env \<Rightarrow> (coord \<Rightarrow> coord) \<Rightarrow> nat \<Rightarrow> feature list \<Rightarrow> exn + tfeature list" where
  "convertFrom T toLonLat pos [] = Inr []"
| "convertFrom T toLonLat pos (f # fs) =
     (case toTurf T toLonLat pos f of
        Inl e \<Rightarrow> Inl e
      | Inr t \<Rightarrow>
          (case convertFrom T toLonLat (Suc pos) fs of
             Inl e \<Rightarrow> Inl e
           | Inr ts \<Rightarrow> Inr (t # ts)))"

section \<open>checkTopology: the check of each feature\<close>

text \<open>
  Inside the callback of \<open>turfFeatures.forEach\<close> the pair \<open>(errors, hasError)\<close> is passed
  along; \<open>push\<close> is \<open>errors.push(...); hasError = true\<close>.
\<close>

definition push :: "violation \<Rightarrow> violation list \<times> bool \<Rightarrow> violation list \<times> bool" where
  "push v st = (fst st @ [v], True)"

text \<open>
  \<open>feature.geometry.coordinates[0]\<close> of a polygon feature. Without a first ring the value is
  \<open>undefined\<close> and the following read of \<open>length\<close> throws a \<open>TypeError\<close>. Other geometries
  do not occur in a feature whose type is \<open>Polygon\<close>.
\<close>

definition polygonRing :: "tgeom \<Rightarrow> exn + coord list" where
  "polygonRing g = (case g of TPolygon (ring # _) \<Rightarrow> Inr ring | _ \<Rightarrow> Inl TypeError)"

text \<open>
  The polygon block (lines 254-288, 1208-1242): everything happens inside one \<open>try\<close>, so a
  throw keeps the messages pushed before it and adds the message of line 285. Reading
  \<open>firstPoint[0]\<close> of an empty ring is a \<open>TypeError\<close>.
\<close>

definition checkPolygonSelf :: "env \<Rightarrow> tfeature \<Rightarrow> violation list \<times> bool \<Rightarrow> violation list \<times> bool" where
  "checkPolygonSelf T feature st =
     (let featureIndex = index feature in
      case turf_booleanValid T (tgeometry feature) of
        Inl e \<Rightarrow> push (PolyInvalid featureIndex e) st
      | Inr valid \<Rightarrow>
          let st1 = (if \<not> valid then push (PolySelfIntersect featureIndex) st else st) in
          case polygonRing (tgeometry feature) of
            Inl e \<Rightarrow> push (PolyInvalid featureIndex e) st1
          | Inr coords \<Rightarrow>
              let st2 = (if length coords < 3 then push (PolyTooFewPoints featureIndex) st1 else st1) in
              case coords of
                [] \<Rightarrow> push (PolyInvalid featureIndex TypeError) st2
              | firstPoint # _ \<Rightarrow>
                  let lastPoint = last coords;
                      st3 = (if \<bar>js_round T (fst firstPoint - fst lastPoint)\<bar> > js_round T 0.000001 \<or>
                                \<bar>js_round T (snd firstPoint - snd lastPoint)\<bar> > js_round T 0.000001
                             then push (PolyUnclosed featureIndex) st2 else st2)
                  in case turf_area T (tgeometry feature) of
                       Inl e \<Rightarrow> push (PolyInvalid featureIndex e) st3
                     | Inr area \<Rightarrow>
                         if area < js_round T 0.0001 then push (PolyAreaTooSmall featureIndex) st3 else st3)"

text \<open>
  \<open>feature.geometry.coordinates\<close> of a line feature; other geometries do not occur in a
  feature whose type is \<open>LineString\<close>.
\<close>

definition lineCoords :: "tgeom \<Rightarrow> coord list" where
  "lineCoords g = (case g of TLineString cs \<Rightarrow> cs | _ \<Rightarrow> [])"

text \<open>The inner loop of lines 309-316: left at the first later vertex that repeats \<open>c\<close>.\<close>

fun hasLaterDuplicate :: "env \<Rightarrow> coord \<Rightarrow> coord list \<Rightarrow> bool" where
  "hasLaterDuplicate T c [] = False"
| "hasLaterDuplicate T c (d # ds) =
     (if \<bar>js_round T (fst c - fst d)\<bar> < js_round T 0.000001 \<and>
         \<bar>js_round T (snd c - snd d)\<bar> < js_round T 0.000001 then True
      else hasLaterDuplicate T c ds)"

text \<open>The outer loop of lines 308-317; for the last vertex the inner loop has no turn.\<close>

fun duplicateScan ::
  "env \<Rightarrow> nat \<Rightarrow> coord list \<Rightarrow> violation list \<times> bool \<Rightarrow> violation list \<times> bool" where
  "duplicateScan T featureIndex [] st = st"
| "duplicateScan T featureIndex (c # cs) st =
     duplicateScan T featureIndex cs
       (if hasLaterDuplicate T c cs then push (LineDuplicatePoint featureIndex) st else st)"

text \<open>The line block (lines 291-318, 1245-1272); \<open>turf.length\<close> is called outside any \<open>try\<close>.\<close>

definition checkLineSelf :: "env \<Rightarrow> tfeature \<Rightarrow> violation list \<times> bool \<Rightarrow> exn + violation list \<times> bool" where
  "checkLineSelf T feature st =
     (let featureIndex = index feature;
          coords = lineCoords (tgeometry feature);
          st1 = (if length coords < 2 then push (LineTooFewPoints featureIndex) st else st)
      in case turf_length T (tgeometry feature) of
           Inl e \<Rightarrow> Inl e
         | Inr len \<Rightarrow>
             let st2 = (if len < js_round T 0.1 then push (LineTooShort featureIndex) st1 else st1)
             in Inr (duplicateScan T featureIndex coords st2))"

text \<open>
  The point block (lines 321-332, 1275-1285): the inner \<open>forEach\<close> visits every feature of
  \<open>turfFeatures\<close>, at position \<open>otherPos\<close>; \<open>turf.distance\<close> is called outside any \<open>try\<close>.
\<close>

fun checkPointSelf ::
  "env \<Rightarrow> tfeature \<Rightarrow> nat \<Rightarrow> nat \<Rightarrow> tfeature list \<Rightarrow> violation list \<times> bool \<Rightarrow> exn + violation list \<times> bool" where
  "checkPointSelf T feature pos otherPos [] st = Inr st"
| "checkPointSelf T feature pos otherPos (otherFeature # rest) st =
     (if pos \<noteq> otherPos \<and> ftype otherFeature = PointT then
        (case turf_distance T (tgeometry feature) (tgeometry otherFeature) of
           Inl e \<Rightarrow> Inl e
         | Inr d \<Rightarrow>
             checkPointSelf T feature pos (Suc otherPos) rest
               (if d < js_round T 0.1
                then push (PointsTooClose (index feature) (index otherFeature) d) st
                else st))
      else checkPointSelf T feature pos (Suc otherPos) rest st)"

text \<open>One call of the callback of \<open>turfFeatures.forEach\<close> (lines 247-338, 1201-1291).\<close>

definition selfCheck :: "env \<Rightarrow> tfeature list \<Rightarrow> nat \<Rightarrow> tfeature \<Rightarrow> acc \<Rightarrow> exn + acc" where
  "selfCheck T turfFeatures pos feature a =
     (let st0 = (fst a, False);
          st1 = (if ftype feature = PolygonT then checkPolygonSelf T feature st0 else st0)
      in case (if ftype feature = LineStringT then checkLineSelf T feature st1 else Inr st1) of
           Inl e \<Rightarrow> Inl e
         | Inr st2 \<Rightarrow>
             (case (if ftype feature = PointT
                    then checkPointSelf T feature pos 0 turfFeatures st2 else Inr st2) of
                Inl e \<Rightarrow> Inl e
              | Inr st3 \<Rightarrow>
                  Inr (fst st3,
                       if snd st3 then set_add (originalIndex feature) (snd a) else snd a)))"

fun selfLoop :: "env \<Rightarrow> tfeature list \<Rightarrow> nat \<Rightarrow> tfeature list \<Rightarrow> acc \<Rightarrow> exn + acc" where
  "selfLoop T turfFeatures pos [] a = Inr a"
| "selfLoop T turfFeatures pos (feature # rest) a =
     (case selfCheck T turfFeatures pos feature a of
        Inl e \<Rightarrow> Inl e
      | Inr a' \<Rightarrow> selfLoop T turfFeatures (Suc pos) rest a')"

section \<open>checkTopology: the check of each pair\<close>

text \<open>Lines 349-359 and 1302-1312: the overlap test, inside a \<open>try\<close> with an empty handler.\<close>

definition overlapStep :: "env \<Rightarrow> tfeature \<Rightarrow> tfeature \<Rightarrow> acc \<Rightarrow> acc" where
  "overlapStep T feature1 feature2 a =
     (case turf_booleanOverlap T (tgeometry feature1) (tgeometry feature2) of
        Inl e \<Rightarrow> a
      | Inr b \<Rightarrow>
          if b then flagged feature1 feature2
                      (Overlap (ftype feature1) (index feature1) (ftype feature2) (index feature2)) a
          else a)"

text \<open>Lines 362-392 of the first listing: the crossing test for the three kinds of pair.\<close>

definition crossStep_v1 :: "env \<Rightarrow> tfeature \<Rightarrow> tfeature \<Rightarrow> acc \<Rightarrow> acc" where
  "crossStep_v1 T feature1 feature2 a =
     (if ftype feature1 = LineStringT \<and> ftype feature2 = LineStringT then
        (case turf_booleanCrosses T (tgeometry feature1) (tgeometry feature2) of
           Inl e \<Rightarrow> a
         | Inr b \<Rightarrow>
             if b then flagged feature1 feature2 (LinesCross (index feature1) (index feature2)) a
             else a)
      else if ftype feature1 = LineStringT \<and> ftype feature2 = PolygonT then
        (case turf_booleanCrosses T (tgeometry feature1) (tgeometry feature2) of
           Inl e \<Rightarrow> a
         | Inr b \<Rightarrow>
             if b then flagged feature1 feature2
                         (LineCrossesPolygon (index feature1) (index feature2)) a
             else a)
      else if ftype feature1 = PolygonT \<and> ftype feature2 = LineStringT then
        (case turf_booleanCrosses T (tgeometry feature2) (tgeometry feature1) of
           Inl e \<Rightarrow> a
         | Inr b \<Rightarrow>
             if b then flagged feature1 feature2
                         (LineCrossesPolygon (index feature2) (index feature1)) a
             else a)
      else a)"

text \<open>Lines 1315-1325 of the annotated listing: the crossing test for two lines only.\<close>

definition crossStep :: "env \<Rightarrow> tfeature \<Rightarrow> tfeature \<Rightarrow> acc \<Rightarrow> acc" where
  "crossStep T feature1 feature2 a =
     (if ftype feature1 = LineStringT \<and> ftype feature2 = LineStringT then
        (case turf_booleanCrosses T (tgeometry feature1) (tgeometry feature2) of
           Inl e \<Rightarrow> a
         | Inr b \<Rightarrow>
             if b then flagged feature1 feature2 (LinesCross (index feature1) (index feature2)) a
             else a)
      else a)"

text \<open>
  Lines 398-415 and 1330-1346: \<open>turf.booleanIntersects\<close> is called before the \<open>try\<close>
  begins; a throw of \<open>turf.intersect\<close> or \<open>turf.area\<close> inside it becomes the message of
  line 411.
\<close>

definition intersectStep :: "env \<Rightarrow> tfeature \<Rightarrow> tfeature \<Rightarrow> acc \<Rightarrow> exn + acc" where
  "intersectStep T feature1 feature2 a =
     (case turf_booleanIntersects T (tgeometry feature1) (tgeometry feature2) of
        Inl e \<Rightarrow> Inl e
      | Inr b \<Rightarrow>
          if b then
            Inr (case turf_intersect T (tgeometry feature1) (tgeometry feature2) of
                   Inl e \<Rightarrow> flagged feature1 feature2
                              (PolygonsIntersectFailed (index feature1) (index feature2)) a
                 | Inr None \<Rightarrow> a
                 | Inr (Some intersection) \<Rightarrow>
                     (case turf_area T intersection of
                        Inl e \<Rightarrow> flagged feature1 feature2
                                   (PolygonsIntersectFailed (index feature1) (index feature2)) a
                      | Inr intersectionArea \<Rightarrow>
                          if intersectionArea > js_round T 0.0001
                          then flagged feature1 feature2
                                 (PolygonsIntersect (index feature1) (index feature2) intersectionArea) a
                          else a))
          else Inr a)"

text \<open>
  Lines 418-435 of the first listing: both directions of containment inside one \<open>try\<close>; a
  throw in the second half keeps the message of the first half. The percentage is a
  division and a multiplication, each rounded. Division by a zero area gives 0 here and an
  infinity or \<open>NaN\<close> in JavaScript.
\<close>

definition containsStep_v1 :: "env \<Rightarrow> tfeature \<Rightarrow> tfeature \<Rightarrow> acc \<Rightarrow> acc" where
  "containsStep_v1 T feature1 feature2 a =
     (case turf_booleanContains T (tgeometry feature1) (tgeometry feature2) of
        Inl e \<Rightarrow> a
      | Inr c12 \<Rightarrow>
          (case (if c12 then
                   (case turf_area T (tgeometry feature1) of
                      Inl e \<Rightarrow> Inl e
                    | Inr area1 \<Rightarrow>
                        (case turf_area T (tgeometry feature2) of
                           Inl e \<Rightarrow> Inl e
                         | Inr area2 \<Rightarrow>
                             Inr (flagged feature1 feature2
                                    (PolygonContains (index feature1) (index feature2)
                                       (js_round T (js_round T (area2 / area1) * 100))) a)))
                 else Inr a) of
             Inl e \<Rightarrow> a
           | Inr a1 \<Rightarrow>
               (case turf_booleanContains T (tgeometry feature2) (tgeometry feature1) of
                  Inl e \<Rightarrow> a1
                | Inr c21 \<Rightarrow>
                    if c21 then
                      (case turf_area T (tgeometry feature1) of
                         Inl e \<Rightarrow> a1
                       | Inr area1 \<Rightarrow>
                           (case turf_area T (tgeometry feature2) of
                              Inl e \<Rightarrow> a1
                            | Inr area2 \<Rightarrow>
                                flagged feature1 feature2
                                  (PolygonContains (index feature2) (index feature1)
                                     (js_round T (js_round T (area1 / area2) * 100))) a1))
                    else a1)))"

text \<open>Lines 1349-1359 of the annotated listing: containment of the second in the first only.\<close>

definition containsStep :: "env \<Rightarrow> tfeature \<Rightarrow> tfeature \<Rightarrow> acc \<Rightarrow> acc" where
  "containsStep T feature1 feature2 a =
     (case turf_booleanContains T (tgeometry feature1) (tgeometry feature2) of
        Inl e \<Rightarrow> a
      | Inr c12 \<Rightarrow>
          if c12 then
            (case turf_area T (tgeometry feature1) of
               Inl e \<Rightarrow> a
             | Inr area1 \<Rightarrow>
                 (case turf_area T (tgeometry feature2) of
                    Inl e \<Rightarrow> a
                  | Inr area2 \<Rightarrow>
                      flagged feature1 feature2
                        (PolygonContains (index feature1) (index feature2)
                           (js_round T (js_round T (area2 / area1) * 100))) a))
          else a)"

text \<open>Lines 438-446: adjacency is pushed to \<open>errors\<close> without marking the features.\<close>

definition adjacentStep :: "env \<Rightarrow> tfeature \<Rightarrow> tfeature \<Rightarrow> acc \<Rightarrow> acc" where
  "adjacentStep T feature1 feature2 a =
     (case turf_distanceToLine T (tgeometry feature1) (tgeometry feature2) of
        Inl e \<Rightarrow> a
      | Inr sharedDistance \<Rightarrow>
          if sharedDistance < js_round T 0.1
          then noted (PolygonsAdjacent (index feature1) (index feature2)) a
          else a)"

text \<open>
  Lines 449-465: the gap between two polygons, two subtractions, each rounded, compared
  with the literal of line 457.
\<close>

definition gapStep :: "env \<Rightarrow> tfeature \<Rightarrow> tfeature \<Rightarrow> acc \<Rightarrow> acc" where
  "gapStep T feature1 feature2 a =
     (case turf_union T (tgeometry feature1) (tgeometry feature2) of
        Inl e \<Rightarrow> a
      | Inr None \<Rightarrow> a
      | Inr (Some unionFeature) \<Rightarrow>
          (case turf_area T unionFeature of
             Inl e \<Rightarrow> a
           | Inr unionArea \<Rightarrow>
               (case turf_area T (tgeometry feature1) of
                  Inl e \<Rightarrow> a
                | Inr area1 \<Rightarrow>
                    (case turf_area T (tgeometry feature2) of
                       Inl e \<Rightarrow> a
                     | Inr area2 \<Rightarrow>
                         let gapArea = js_round T (js_round T (unionArea - area1) - area2) in
                         if gapArea > js_round T 0.0001
                         then flagged feature1 feature2
                                (PolygonGap (index feature1) (index feature2) gapArea) a
                         else a))))"

text \<open>Lines 469-491: a line as first and a polygon as second feature.\<close>

definition linePolygonStep :: "env \<Rightarrow> tfeature \<Rightarrow> tfeature \<Rightarrow> acc \<Rightarrow> acc" where
  "linePolygonStep T feature1 feature2 a =
     (let a1 = (case turf_booleanContains T (tgeometry feature2) (tgeometry feature1) of
                  Inl e \<Rightarrow> a
                | Inr b \<Rightarrow>
                    if b then noted (LineInsidePolygon (index feature1) (index feature2)) a
                    else a)
      in case turf_lineIntersect T (tgeometry feature1) (tgeometry feature2) of
           Inl e \<Rightarrow> a1
         | Inr n \<Rightarrow>
             if n > 0
             then flagged feature1 feature2
                    (LineBoundaryPoints (index feature1) (index feature2) n) a1
             else a1)"

text \<open>Lines 494-516: a polygon as first and a line as second feature.\<close>

definition polygonLineStep :: "env \<Rightarrow> tfeature \<Rightarrow> tfeature \<Rightarrow> acc \<Rightarrow> acc" where
  "polygonLineStep T feature1 feature2 a =
     (let a1 = (case turf_booleanContains T (tgeometry feature1) (tgeometry feature2) of
                  Inl e \<Rightarrow> a
                | Inr b \<Rightarrow>
                    if b then noted (LineInsidePolygon (index feature2) (index feature1)) a
                    else a)
      in case turf_lineIntersect T (tgeometry feature2) (tgeometry feature1) of
           Inl e \<Rightarrow> a1
         | Inr n \<Rightarrow>
             if n > 0
             then flagged feature1 feature2
                    (LineBoundaryPoints (index feature2) (index feature1) n) a1
             else a1)"

text \<open>
  \<open>[coords[0], coords[coords.length - 1]]\<close>: both entries are \<open>undefined\<close> for an empty
  array.
\<close>

definition endpoints :: "coord list \<Rightarrow> coord option list" where
  "endpoints coords = (case coords of [] \<Rightarrow> [None, None] | c # _ \<Rightarrow> [Some c, Some (last coords)])"

text \<open>
  \<open>turf.distance(turf.point(ep1), turf.point(ep2), {units: 'meters'})\<close>, as called in lines
  531, 544 and 583.
\<close>

definition endpointDistance :: "env \<Rightarrow> coord option \<Rightarrow> coord option \<Rightarrow> exn + real" where
  "endpointDistance T ep1 ep2 =
     (case turf_point T ep1 of
        Inl e \<Rightarrow> Inl e
      | Inr p1 \<Rightarrow>
          (case turf_point T ep2 of
             Inl e \<Rightarrow> Inl e
           | Inr p2 \<Rightarrow> turf_distance T (TPoint p1) (TPoint p2)))"

text \<open>
  The loops of lines 529-537 over the pairs of endpoints, in the order of the nested loops,
  with the variables \<open>hasConnection\<close> and \<open>connectionPoints\<close>.
\<close>

fun connectionScan ::
  "env \<Rightarrow> (coord option \<times> coord option) list \<Rightarrow> bool \<times> (coord option \<times> real) list \<Rightarrow>
     exn + bool \<times> (coord option \<times> real) list" where
  "connectionScan T [] st = Inr st"
| "connectionScan T ((ep1, ep2) # rest) st =
     (case endpointDistance T ep1 ep2 of
        Inl e \<Rightarrow> Inl e
      | Inr d \<Rightarrow>
          connectionScan T rest (if d < js_round T 0.1 then (True, snd st @ [(ep1, d)]) else st))"

text \<open>
  The loops of lines 542-547 with the variable \<open>minDistance\<close>; \<open>None\<close> is its initial value
  \<open>Infinity\<close>.
\<close>

fun minScan :: "env \<Rightarrow> (coord option \<times> coord option) list \<Rightarrow> real option \<Rightarrow> exn + real option" where
  "minScan T [] minDistance = Inr minDistance"
| "minScan T ((ep1, ep2) # rest) minDistance =
     (case endpointDistance T ep1 ep2 of
        Inl e \<Rightarrow> Inl e
      | Inr d \<Rightarrow>
          minScan T rest (Some (case minDistance of None \<Rightarrow> d | Some m \<Rightarrow> min m d)))"

text \<open>Lines 519-560: the endpoints of two lines; no call of the library is inside a \<open>try\<close>.\<close>

definition danglingStep :: "env \<Rightarrow> tfeature \<Rightarrow> tfeature \<Rightarrow> acc \<Rightarrow> exn + acc" where
  "danglingStep T feature1 feature2 a =
     (let coords1 = lineCoords (tgeometry feature1);
          coords2 = lineCoords (tgeometry feature2);
          endpoints1 = endpoints coords1;
          endpoints2 = endpoints coords2
      in case connectionScan T (List.product endpoints1 endpoints2) (False, []) of
           Inl e \<Rightarrow> Inl e
         | Inr (hasConnection, connectionPoints) \<Rightarrow>
             if \<not> hasConnection then
               (case minScan T (List.product endpoints1 endpoints2) None of
                  Inl e \<Rightarrow> Inl e
                | Inr None \<Rightarrow> Inr a
                | Inr (Some minDistance) \<Rightarrow>
                    if minDistance < 1
                    then Inr (flagged feature1 feature2
                                (DanglingCandidate (index feature1) (index feature2) minDistance) a)
                    else Inr a)
             else if length connectionPoints = 1
             then Inr (flagged feature1 feature2
                         (SingleEndpointConnection (index feature1) (index feature2)) a)
             else Inr a)"

text \<open>The body of the inner loop over pairs in the first listing (lines 343-560).\<close>

definition pairCheck_v1 :: "env \<Rightarrow> tfeature \<Rightarrow> tfeature \<Rightarrow> acc \<Rightarrow> exn + acc" where
  "pairCheck_v1 T feature1 feature2 a =
     (let a1 = overlapStep T feature1 feature2 a;
          a2 = crossStep_v1 T feature1 feature2 a1
      in case (if ftype feature1 = PolygonT \<and> ftype feature2 = PolygonT then
                 (case intersectStep T feature1 feature2 a2 of
                    Inl e \<Rightarrow> Inl e
                  | Inr a3 \<Rightarrow>
                      Inr (gapStep T feature1 feature2
                             (adjacentStep T feature1 feature2
                                (containsStep_v1 T feature1 feature2 a3))))
               else Inr a2) of
           Inl e \<Rightarrow> Inl e
         | Inr a6 \<Rightarrow>
             let a7 = (if ftype feature1 = LineStringT \<and> ftype feature2 = PolygonT
                       then linePolygonStep T feature1 feature2 a6 else a6);
                 a8 = (if ftype feature1 = PolygonT \<and> ftype feature2 = LineStringT
                       then polygonLineStep T feature1 feature2 a7 else a7)
             in if ftype feature1 = LineStringT \<and> ftype feature2 = LineStringT
                then danglingStep T feature1 feature2 a8 else Inr a8)"

text \<open>The body of the inner loop over pairs in the annotated listing (lines 1296-1360).\<close>

definition pairCheck :: "env \<Rightarrow> tfeature \<Rightarrow> tfeature \<Rightarrow> acc \<Rightarrow> exn + acc" where
  "pairCheck T feature1 feature2 a =
     (let a1 = overlapStep T feature1 feature2 a;
          a2 = crossStep T feature1 feature2 a1
      in if ftype feature1 = PolygonT \<and> ftype feature2 = PolygonT then
           (case intersectStep T feature1 feature2 a2 of
              Inl e \<Rightarrow> Inl e
            | Inr a3 \<Rightarrow> Inr (containsStep T feature1 feature2 a3))
         else Inr a2)"

text \<open>
  The two nested loops \<open>for i\<close>, \<open>for j = i + 1\<close> (lines 341-562, 1294-1362), with the body
  of the inner loop as a parameter.
\<close>

fun innerLoop ::
  "(tfeature \<Rightarrow> tfeature \<Rightarrow> acc \<Rightarrow> exn + acc) \<Rightarrow> tfeature \<Rightarrow> tfeature list \<Rightarrow> acc \<Rightarrow> exn + acc" where
  "innerLoop body feature1 [] a = Inr a"
| "innerLoop body feature1 (feature2 # rest) a =
     (case body feature1 feature2 a of
        Inl e \<Rightarrow> Inl e
      | Inr a' \<Rightarrow> innerLoop body feature1 rest a')"

fun outerLoop :: "(tfeature \<Rightarrow> tfeature \<Rightarrow> acc \<Rightarrow> exn + acc) \<Rightarrow> tfeature list \<Rightarrow> acc \<Rightarrow> exn + acc" where
  "outerLoop body [] a = Inr a"
| "outerLoop body (feature1 # rest) a =
     (case innerLoop body feature1 rest a of
        Inl e \<Rightarrow> Inl e
      | Inr a' \<Rightarrow> outerLoop body rest a')"

section \<open>checkTopology: the polygon group of the first listing\<close>

text \<open>The loops of lines 581-588, counting the entries of \<open>sharedCoords\<close>.\<close>

fun sharedCount :: "env \<Rightarrow> coord \<Rightarrow> coord list \<Rightarrow> nat \<Rightarrow> exn + nat" where
  "sharedCount T coord1 [] n = Inr n"
| "sharedCount T coord1 (coord2 # rest) n =
     (case endpointDistance T (Some coord1) (Some coord2) of
        Inl e \<Rightarrow> Inl e
      | Inr d \<Rightarrow> sharedCount T coord1 rest (if d < js_round T 0.1 then Suc n else n))"

fun sharedScan :: "env \<Rightarrow> coord list \<Rightarrow> coord list \<Rightarrow> nat \<Rightarrow> exn + nat" where
  "sharedScan T [] coords2 n = Inr n"
| "sharedScan T (coord1 # rest) coords2 n =
     (case sharedCount T coord1 coords2 n of
        Inl e \<Rightarrow> Inl e
      | Inr n' \<Rightarrow> sharedScan T rest coords2 n')"

text \<open>
  Lines 576-595: the \<open>try\<close> around one pair of polygons. Iterating over an \<open>undefined\<close>
  ring throws inside it, as does any call of the library; the pair is then skipped.
\<close>

definition boundaryStep :: "env \<Rightarrow> tfeature \<Rightarrow> tfeature \<Rightarrow> violation list \<Rightarrow> violation list" where
  "boundaryStep T poly1 poly2 errors =
     (case polygonRing (tgeometry poly1) of
        Inl e \<Rightarrow> errors
      | Inr coords1 \<Rightarrow>
          (case polygonRing (tgeometry poly2) of
             Inl e \<Rightarrow> errors
           | Inr coords2 \<Rightarrow>
               (case sharedScan T coords1 coords2 0 of
                  Inl e \<Rightarrow> errors
                | Inr n \<Rightarrow>
                    if n \<ge> 2
                    then errors @ [SharedBoundaryPoints (index poly1) (index poly2) n]
                    else errors)))"

fun groupInner :: "env \<Rightarrow> tfeature \<Rightarrow> tfeature list \<Rightarrow> violation list \<Rightarrow> violation list" where
  "groupInner T poly1 [] errors = errors"
| "groupInner T poly1 (poly2 # rest) errors = groupInner T poly1 rest (boundaryStep T poly1 poly2 errors)"

fun groupOuter :: "env \<Rightarrow> tfeature list \<Rightarrow> violation list \<Rightarrow> violation list" where
  "groupOuter T [] errors = errors"
| "groupOuter T (poly1 # rest) errors = groupOuter T rest (groupInner T poly1 rest errors)"

text \<open>Lines 565-601: the group check runs when there are more than two polygons.\<close>

definition groupCheck :: "env \<Rightarrow> tfeature list \<Rightarrow> violation list \<Rightarrow> violation list" where
  "groupCheck T turfFeatures errors =
     (let polygonFeatures = filter (\<lambda>f. ftype f = PolygonT) turfFeatures
      in if length polygonFeatures > 2 then groupOuter T polygonFeatures errors else errors)"

section \<open>checkTopology\<close>

text \<open>
  Lines 604-613 and 1365-1374: for every member of \<open>errorFeatureIndices\<close>, in insertion
  order, the geometry of the drawn feature at that position is cloned into the highlight
  source; a position without a feature is skipped.
\<close>

fun highlightFeatures :: "feature list \<Rightarrow> nat list \<Rightarrow> geometry list" where
  "highlightFeatures features [] = []"
| "highlightFeatures features (i # rest) =
     (if i < length features then geom (features ! i) # highlightFeatures features rest
      else highlightFeatures features rest)"

text \<open>
  What the check shows in the end: the warning of an empty collection, the alert that lists
  the messages, or the note of success.
\<close>

datatype report = NoFeatures | TopologyErrors "violation list" | NoErrors

text \<open>
  \<open>checkTopology\<close> of the first listing (lines 211-626). An exception that leaves the
  function is the result \<open>Inl\<close>; the highlight source has been cleared by then.
\<close>

definition checkTopology_v1 ::
  "env \<Rightarrow> (coord \<Rightarrow> coord) \<Rightarrow> 'n app_state \<Rightarrow> (exn + report) \<times> 'n app_state" where
  "checkTopology_v1 T toLonLat s =
     (let features = drawSource s in
      if length features = 0 then (Inr NoFeatures, s)
      else
        let s1 = s\<lparr>highlightSource := []\<rparr> in
        case convertFrom T toLonLat 0 features of
          Inl e \<Rightarrow> (Inl e, s1)
        | Inr turfFeatures \<Rightarrow>
            (case selfLoop T turfFeatures 0 turfFeatures ([], []) of
               Inl e \<Rightarrow> (Inl e, s1)
             | Inr a1 \<Rightarrow>
                 (case outerLoop (pairCheck_v1 T) turfFeatures a1 of
                    Inl e \<Rightarrow> (Inl e, s1)
                  | Inr a2 \<Rightarrow>
                      let errors = groupCheck T turfFeatures (fst a2);
                          errorFeatureIndices = snd a2;
                          s2 = s1\<lparr>highlightSource := highlightFeatures features errorFeatureIndices\<rparr>
                      in (Inr (if length errors > 0 then TopologyErrors errors else NoErrors), s2))))"

text \<open>\<open>checkTopology\<close> of the annotated listing (lines 1158-1387).\<close>

definition checkTopology ::
  "env \<Rightarrow> (coord \<Rightarrow> coord) \<Rightarrow> 'n app_state \<Rightarrow> (exn + report) \<times> 'n app_state" where
  "checkTopology T toLonLat s =
     (let features = drawSource s in
      if length features = 0 then (Inr NoFeatures, s)
      else
        let s1 = s\<lparr>highlightSource := []\<rparr> in
        case convertFrom T toLonLat 0 features of
          Inl e \<Rightarrow> (Inl e, s1)
        | Inr turfFeatures \<Rightarrow>
            (case selfLoop T turfFeatures 0 turfFeatures ([], []) of
               Inl e \<Rightarrow> (Inl e, s1)
             | Inr a1 \<Rightarrow>
                 (case outerLoop (pairCheck T) turfFeatures a1 of
                    Inl e \<Rightarrow> (Inl e, s1)
                  | Inr a2 \<Rightarrow>
                      let errors = fst a2;
                          errorFeatureIndices = snd a2;
                          s2 = s1\<lparr>highlightSource := highlightFeatures features errorFeatureIndices\<rparr>
                      in (Inr (if length errors > 0 then TopologyErrors errors else NoErrors), s2))))"

section \<open>A sample library for concrete runs\<close>

text \<open>
  Concrete runs need a concrete library. The sample library measures in the plane: a
  distance is the sum of the differences in longitude and latitude, at 111320 metres to the
  degree; an area is the area of the first ring by the surveyor's formula, in square
  degrees. Its helpers reject what the helpers of the library reject: a missing coordinate,
  a line of fewer than two positions, a ring of fewer than four positions or with different
  first and last position. Every predicate answers \<open>false\<close>, \<open>turf.intersect\<close> and
  \<open>turf.union\<close> answer \<open>null\<close>, and \<open>turf.distanceToLine\<close>, which the library does not
  have, throws. Its arithmetic is exact: the rounding is the identity. The runs below
  replace single functions of it.
\<close>

definition planarDistance :: "coord \<Rightarrow> coord \<Rightarrow> real" where
  "planarDistance p q = 111320 * (\<bar>fst p - fst q\<bar> + \<bar>snd p - snd q\<bar>)"

fun pathLength :: "coord list \<Rightarrow> real" where
  "pathLength (p # q # rest) = planarDistance p q + pathLength (q # rest)"
| "pathLength _ = 0"

fun shoelace :: "coord list \<Rightarrow> real" where
  "shoelace (p # q # rest) = (fst p * snd q - fst q * snd p) + shoelace (q # rest)"
| "shoelace _ = 0"

definition ringArea :: "tgeom \<Rightarrow> real" where
  "ringArea g = (case g of TPolygon (ring # _) \<Rightarrow> \<bar>shoelace ring\<bar> / 2 | _ \<Rightarrow> 0)"

definition sample_turf :: env where
  "sample_turf =
     \<lparr>turf_point = (\<lambda>c. case c of None \<Rightarrow> Inl (LibraryError ''coordinates is required'')
                                 | Some p \<Rightarrow> Inr p),
      turf_lineString = (\<lambda>cs. if length cs < 2
                               then Inl (LibraryError ''two or more positions required'')
                               else Inr cs),
      turf_polygon = (\<lambda>rings. if list_ex (\<lambda>ring. length ring < 4) rings
                               then Inl (LibraryError ''four or more positions required'')
                               else if list_ex (\<lambda>ring. last ring \<noteq> hd ring) rings
                               then Inl (LibraryError ''first and last position differ'')
                               else Inr rings),
      turf_booleanValid = (\<lambda>g. Inr True),
      turf_area = (\<lambda>g. Inr (ringArea g)),
      turf_length = (\<lambda>g. Inr (pathLength (lineCoords g))),
      turf_distance = (\<lambda>g h. case (g, h) of
                                 (TPoint p, TPoint q) \<Rightarrow> Inr (planarDistance p q)
                               | _ \<Rightarrow> Inl (LibraryError ''point expected'')),
      turf_booleanOverlap = (\<lambda>g h. Inr False),
      turf_booleanCrosses = (\<lambda>g h. Inr False),
      turf_booleanIntersects = (\<lambda>g h. Inr False),
      turf_intersect = (\<lambda>g h. Inr None),
      turf_booleanContains = (\<lambda>g h. Inr False),
      turf_distanceToLine = (\<lambda>g h. Inl TypeError),
      turf_union = (\<lambda>g h. Inr None),
      turf_lineIntersect = (\<lambda>g h. Inr 0),
      js_round = (\<lambda>x. x)\<rparr>"

text \<open>A state with the given drawn features and nothing else.\<close>

definition drawn :: "feature list \<Rightarrow> real app_state" where
  "drawn fs =
     \<lparr>drawSource = fs, highlightSource = [], rangeExtent = None,
      rangeLayer = [], dialogVisible = False, rangeForm = ([], [], [], [])\<rparr>"



text \<open>
  Two closed squares one degree wide, and the sample library with a
  \<open>turf.booleanIntersects\<close> that throws.
\<close>



definition unit_square :: "coord list" where
  "unit_square = [(0, 0), (0, 1), (1, 1), (1, 0), (0, 0)]"

definition far_square :: "coord list" where
  "far_square = [(2, 0), (2, 1), (3, 1), (3, 0), (2, 0)]"

definition failing_intersects :: env where
  "failing_intersects =
     sample_turf\<lparr>turf_booleanIntersects := (\<lambda>g h. Inl (LibraryError ''predicate failed''))\<rparr>"

section \<open>Properties of confirmRange\<close>

lemma confirmRange_invalid_form: "confirmRange rnd F False a b c d s = (FormInvalid, s)"
  by (simp add: confirmRange_def)

lemma confirmRange_rejects:
  assumes "\<not> inputs_ok rnd a b c d"
  shows "snd (confirmRange rnd F valid a b c d s) = s"
    and "fst (confirmRange rnd F valid a b c d s) \<noteq> RangeAccepted"
    and "valid \<Longrightarrow> \<exists>e. fst (confirmRange rnd F valid a b c d s) = RangeRejected e"
  using assms
  by (auto simp: confirmRange_def inputs_ok_def ordering_ok_def domain_ok_def span_ok_js_def
           Let_def split: option.splits)

lemma confirmRange_accepts:
  assumes "inputs_ok rnd (Some x0) (Some y0) (Some x1) (Some y1)"
  shows "fst (confirmRange rnd F True (Some x0) (Some y0) (Some x1) (Some y1) s) = RangeAccepted"
    and "rangeExtent (snd (confirmRange rnd F True (Some x0) (Some y0) (Some x1) (Some y1) s))
         = Some (x0, y0, x1, y1)"
proof -
  from assms have *: "\<not> (x0 < - 180 \<or> x0 > 180 \<or> x1 < - 180 \<or> x1 > 180)"
    "\<not> (y0 < - 90 \<or> y0 > 90 \<or> y1 < - 90 \<or> y1 > 90)"
    "\<not> (x0 \<ge> x1 \<or> y0 \<ge> y1)"
    "\<not> (rnd (x1 - x0) < rnd 0.001 \<or> rnd (y1 - y0) < rnd 0.001)"
    by (auto simp: inputs_ok_def ordering_ok_def domain_ok_def span_ok_js_def)
  show "fst (confirmRange rnd F True (Some x0) (Some y0) (Some x1) (Some y1) s) = RangeAccepted"
    using * by (simp add: confirmRange_def Let_def)
  show "rangeExtent (snd (confirmRange rnd F True (Some x0) (Some y0) (Some x1) (Some y1) s))
        = Some (x0, y0, x1, y1)"
    using * by (simp add: confirmRange_def Let_def)
qed

lemma confirmRange_v1_invalid_form: "confirmRange_v1 False a b c d t = (FormInvalid, t)"
  by (simp add: confirmRange_v1_def)

lemma confirmRange_v1_rejects:
  "\<not> inputs_ok_v1 a b c d \<Longrightarrow>
     confirmRange_v1 True a b c d t = (RangeRejected MinNotLessThanMax, t)"
  by (auto simp: confirmRange_v1_def inputs_ok_v1_def)

lemma confirmRange_v1_accepts:
  assumes "inputs_ok_v1 a b c d"
  shows "fst (confirmRange_v1 True a b c d t) = RangeAccepted"
    and "rangeExtent (snd (confirmRange_v1 True a b c d t)) = Some (a, b, c, d)"
  using assms by (auto simp: confirmRange_v1_def inputs_ok_v1_def)

lemma span_ok_js_exact: "span_ok_js (\<lambda>x. x) e = span_ok e"
  by (simp add: span_ok_js_def span_ok_def)

text \<open>
  C2, as the claim states it, fails on the first listing. With the extent
  \<open>(0,0,1,1)\<close> installed, its \<open>confirmRange\<close> accepts \<open>(0, 0, 0.0005, 0.0005)\<close>, whose span is
  below 0.001 degrees, accepts \<open>(0, 0, 500, 500)\<close>, which lies outside the WGS84 domain, and
  accepts a \<open>NaN\<close> as minimum longitude; each time the stored extent is replaced.
\<close>

theorem confirmRange_v1_installs_unchecked:
  "rangeExtent sample_state_v1 = Some (Some 0, Some 0, Some 1, Some 1) \<and>
   \<not> span_ok (0, 0, 0.0005, 0.0005) \<and>
   fst (confirmRange_v1 True (Some 0) (Some 0) (Some 0.0005) (Some 0.0005) sample_state_v1)
     = RangeAccepted \<and>
   rangeExtent (snd (confirmRange_v1 True (Some 0) (Some 0) (Some 0.0005) (Some 0.0005) sample_state_v1))
     = Some (Some 0, Some 0, Some 0.0005, Some 0.0005) \<and>
   \<not> domain_ok (0, 0, 500, 500) \<and>
   rangeExtent (snd (confirmRange_v1 True (Some 0) (Some 0) (Some 500) (Some 500) sample_state_v1))
     = Some (Some 0, Some 0, Some 500, Some 500) \<and>
   rangeExtent (snd (confirmRange_v1 True None (Some 0) (Some 1) (Some 1) sample_state_v1))
     = Some (None, Some 0, Some 1, Some 1)"
  by (simp add: confirmRange_v1_def js_ge_def sample_state_v1_def span_ok_def domain_ok_def)

text \<open>
  C2, amended. In both listings \<open>confirmRange\<close> either rejects the request and returns the
  whole state as it was, the installed extent or its absence included, or installs the four
  values together. An invalid form is \<open>FormInvalid\<close>. On a valid form the annotated listing
  reports an error unless the four values are numbers, lie in the WGS84 domain, are strictly
  ordered on both axes and have on both axes a span, as the double subtraction computes it,
  not below the double 0.001; then it installs them. On a valid form the first listing
  reports an error exactly when a minimum is greater than or equal to its maximum, and
  installs the four values otherwise; it has no rule for \<open>NaN\<close>, for the domain or for the
  span.
\<close>

theorem confirmRange_rules:
  "confirmRange rnd F False a b c d s = (FormInvalid, s) \<and>
   (\<not> inputs_ok rnd a b c d \<longrightarrow>
      snd (confirmRange rnd F True a b c d s) = s \<and>
      (\<exists>e. fst (confirmRange rnd F True a b c d s) = RangeRejected e)) \<and>
   (inputs_ok rnd (Some minX) (Some minY) (Some maxX) (Some maxY) \<longrightarrow>
      fst (confirmRange rnd F True (Some minX) (Some minY) (Some maxX) (Some maxY) s) = RangeAccepted \<and>
      rangeExtent (snd (confirmRange rnd F True (Some minX) (Some minY) (Some maxX) (Some maxY) s))
        = Some (minX, minY, maxX, maxY)) \<and>
   confirmRange_v1 False a' b' c' d' t = (FormInvalid, t) \<and>
   (\<not> inputs_ok_v1 a' b' c' d' \<longrightarrow>
      confirmRange_v1 True a' b' c' d' t = (RangeRejected MinNotLessThanMax, t)) \<and>
   (inputs_ok_v1 a' b' c' d' \<longrightarrow>
      fst (confirmRange_v1 True a' b' c' d' t) = RangeAccepted \<and>
      rangeExtent (snd (confirmRange_v1 True a' b' c' d' t)) = Some (a', b', c', d'))"
proof (intro conjI impI)
  show "confirmRange rnd F False a b c d s = (FormInvalid, s)"
    by (rule confirmRange_invalid_form)
  show "confirmRange_v1 False a' b' c' d' t = (FormInvalid, t)"
    by (rule confirmRange_v1_invalid_form)
next
  assume bad: "\<not> inputs_ok rnd a b c d"
  then show "snd (confirmRange rnd F True a b c d s) = s"
    by (rule confirmRange_rejects)
  from bad show "\<exists>e. fst (confirmRange rnd F True a b c d s) = RangeRejected e"
    by (rule confirmRange_rejects) simp
next
  assume ok: "inputs_ok rnd (Some minX) (Some minY) (Some maxX) (Some maxY)"
  then show "fst (confirmRange rnd F True (Some minX) (Some minY) (Some maxX) (Some maxY) s) = RangeAccepted"
    by (rule confirmRange_accepts)
  from ok show "rangeExtent (snd (confirmRange rnd F True (Some minX) (Some minY) (Some maxX) (Some maxY) s))
        = Some (minX, minY, maxX, maxY)"
    by (rule confirmRange_accepts)
next
  assume "\<not> inputs_ok_v1 a' b' c' d'"
  then show "confirmRange_v1 True a' b' c' d' t = (RangeRejected MinNotLessThanMax, t)"
    by (rule confirmRange_v1_rejects)
next
  assume ok: "inputs_ok_v1 a' b' c' d'"
  then show "fst (confirmRange_v1 True a' b' c' d' t) = RangeAccepted"
    by (rule confirmRange_v1_accepts)
  from ok show "rangeExtent (snd (confirmRange_v1 True a' b' c' d' t)) = Some (a', b', c', d')"
    by (rule confirmRange_v1_accepts)
qed

text \<open>
  With exact arithmetic, the inverted request \<open>set(10,0,0,10)\<close> on a state that holds the
  extent \<open>(0,0,1,1)\<close> is rejected by both listings and leaves the state as it was;
  \<open>set(0,0,10,10)\<close> installs the new extent in both.
\<close>

theorem confirmRange_rules_witness:
  "snd (confirmRange (\<lambda>x. x) (\<lambda>c. c) True (Some 10) (Some 0) (Some 0) (Some 10) sample_state)
     = sample_state \<and>
   (\<exists>e. fst (confirmRange (\<lambda>x. x) (\<lambda>c. c) True (Some 10) (Some 0) (Some 0) (Some 10) sample_state)
     = RangeRejected e) \<and>
   confirmRange_v1 True (Some 10) (Some 0) (Some 0) (Some 10) sample_state_v1
     = (RangeRejected MinNotLessThanMax, sample_state_v1) \<and>
   rangeExtent (snd (confirmRange (\<lambda>x. x) (\<lambda>c. c) True (Some 0) (Some 0) (Some 10) (Some 10) sample_state))
     = Some (0, 0, 10, 10) \<and>
   rangeExtent (snd (confirmRange_v1 True (Some 0) (Some 0) (Some 10) (Some 10) sample_state_v1))
     = Some (Some 0, Some 0, Some 10, Some 10)"
proof -
  have bad: "\<not> inputs_ok (\<lambda>x. x) (Some 10) (Some 0) (Some 0) (Some 10)"
    by (simp add: inputs_ok_def ordering_ok_def)
  have bad1: "\<not> inputs_ok_v1 (Some 10) (Some 0) (Some 0) (Some 10)"
    by (simp add: inputs_ok_v1_def js_ge_def)
  from confirmRange_rules [where rnd = "\<lambda>x. x" and F = "\<lambda>c. c" and a = "Some 10" and b = "Some 0"
      and c = "Some 0" and d = "Some 10" and s = sample_state and a' = "Some 10" and b' = "Some 0"
      and c' = "Some 0" and d' = "Some 10" and t = sample_state_v1] bad bad1
  have 1: "snd (confirmRange (\<lambda>x. x) (\<lambda>c. c) True (Some 10) (Some 0) (Some 0) (Some 10) sample_state)
     = sample_state"
    and 2: "\<exists>e. fst (confirmRange (\<lambda>x. x) (\<lambda>c. c) True (Some 10) (Some 0) (Some 0) (Some 10) sample_state)
     = RangeRejected e"
    and 3: "confirmRange_v1 True (Some 10) (Some 0) (Some 0) (Some 10) sample_state_v1
     = (RangeRejected MinNotLessThanMax, sample_state_v1)"
    by blast+
  have good: "inputs_ok (\<lambda>x. x) (Some 0) (Some 0) (Some 10) (Some 10)"
    by (simp add: inputs_ok_def ordering_ok_def domain_ok_def span_ok_js_def)
  have good1: "inputs_ok_v1 (Some 0) (Some 0) (Some 10) (Some 10)"
    by (simp add: inputs_ok_v1_def js_ge_def)
  from confirmRange_rules [where rnd = "\<lambda>x. x" and F = "\<lambda>c. c" and s = sample_state
      and minX = 0 and minY = 0 and maxX = 10 and maxY = 10 and a' = "Some 0" and b' = "Some 0"
      and c' = "Some 10" and d' = "Some 10" and t = sample_state_v1] good good1
  have 4: "rangeExtent (snd (confirmRange (\<lambda>x. x) (\<lambda>c. c) True (Some 0) (Some 0) (Some 10) (Some 10) sample_state))
     = Some (0, 0, 10, 10)"
    and 5: "rangeExtent (snd (confirmRange_v1 True (Some 0) (Some 0) (Some 10) (Some 10) sample_state_v1))
     = Some (Some 0, Some 0, Some 10, Some 10)"
    by blast+
  from 1 2 3 4 5 show ?thesis by blast
qed

section \<open>Properties of the drawend handler\<close>

lemma outsideRange_inside: "outsideRange r c \<longleftrightarrow> \<not> inside r c"
  by (auto simp: outsideRange_def inside_def split: prod.splits)

lemma coordsWithinRange_iff:
  "coordsWithinRange toLonLat r cs \<longleftrightarrow> (\<forall>c\<in>set cs. inside r (toLonLat c))"
  by (induction cs) (auto simp: outsideRange_inside)

lemma ringsWithinRange_iff:
  "ringsWithinRange toLonLat r rings \<longleftrightarrow> (\<forall>ring\<in>set rings. \<forall>c\<in>set ring. inside r (toLonLat c))"
  by (induction rings) (auto simp: coordsWithinRange_iff)

text \<open>
  The test of the handler accepts a geometry exactly when every one of its coordinates,
  converted to longitude and latitude, lies inside the inclusive bounds of the extent: the
  single coordinate of a point, every vertex of a line, every vertex of every ring of a
  polygon.
\<close>

lemma isWithinRange_iff:
  "isWithinRange toLonLat r g \<longleftrightarrow> (\<forall>c\<in>set (coordinates g). inside r (toLonLat c))"
  by (cases g) (auto simp: isWithinRange_def outsideRange_inside coordsWithinRange_iff ringsWithinRange_iff)

lemma drawend_admits_iff:
  "rangeExtent s = Some r \<Longrightarrow>
     fst (drawend olBound toLonLat f s) = Inr Admitted \<longleftrightarrow>
       (\<forall>c\<in>set (coordinates (geom f)). inside r (toLonLat c))"
  by (simp add: drawend_def isWithinRange_iff)

text \<open>
  The handler removes a feature that the source does not hold yet: when the sketch began
  outside the source, the handler leaves the source as it was.
\<close>

lemma removeFeature_not_held: "fid f \<notin> fid ` set fs \<Longrightarrow> removeFeature f fs = fs"
  by (induction fs) (auto simp: removeFeature_def)

lemma drawend_leaves_source:
  "fid f \<notin> fid ` set (drawSource s) \<Longrightarrow> snd (drawend olBound toLonLat f s) = s"
  by (simp add: drawend_def removeFeature_not_held split: option.splits)

text \<open>
  So whenever the handler returns, admitting the feature or not, the interaction adds the
  feature to the source.
\<close>

lemma finishDrawing_inserts:
  assumes "fid f \<notin> fid ` set (drawSource s)"
    and "fst (drawend olBound toLonLat f s) = Inr outcome"
  shows "finishDrawing olBound toLonLat f s = (Inr outcome, s\<lparr>drawSource := drawSource s @ [f]\<rparr>)"
proof -
  from assms(1) have "snd (drawend olBound toLonLat f s) = s" by (rule drawend_leaves_source)
  with assms(2) have "drawend olBound toLonLat f s = (Inr outcome, s)"
    by (metis prod.collapse)
  then show ?thesis by (simp add: finishDrawing_def)
qed

section \<open>Properties of checkTopology: state\<close>

lemma checkTopology_v1_shape:
  "drawSource s \<noteq> [] \<Longrightarrow>
     \<exists>r h. \<forall>h0. checkTopology_v1 T L (s\<lparr>highlightSource := h0\<rparr>) = (r, s\<lparr>highlightSource := h\<rparr>)"
  by (auto simp: checkTopology_v1_def Let_def split: sum.splits prod.splits)

lemma checkTopology_shape:
  "drawSource s \<noteq> [] \<Longrightarrow>
     \<exists>r h. \<forall>h0. checkTopology T L (s\<lparr>highlightSource := h0\<rparr>) = (r, s\<lparr>highlightSource := h\<rparr>)"
  by (auto simp: checkTopology_def Let_def split: sum.splits prod.splits)

text \<open>
  C1. A second run of the topology check on the state the first run leaves behind gives the
  same outcome (the same messages in the same order, or the same exception) and the same
  state, in particular the same highlight source, in both listings. The library is a
  function of its arguments; the check keeps nothing between runs and clears the highlight
  source before it fills it.
\<close>

theorem checkTopology_twice:
  "checkTopology_v1 T L (snd (checkTopology_v1 T L s)) = checkTopology_v1 T L s \<and>
   checkTopology T L (snd (checkTopology T L s)) = checkTopology T L s"
proof
  show "checkTopology_v1 T L (snd (checkTopology_v1 T L s)) = checkTopology_v1 T L s"
  proof (cases "drawSource s = []")
    case True
    then show ?thesis by (simp add: checkTopology_v1_def)
  next
    case False
    from checkTopology_v1_shape [OF this, of T L] obtain r h where
      *: "\<And>h0. checkTopology_v1 T L (s\<lparr>highlightSource := h0\<rparr>) = (r, s\<lparr>highlightSource := h\<rparr>)"
      by blast
    from * [of "highlightSource s"] have 1: "checkTopology_v1 T L s = (r, s\<lparr>highlightSource := h\<rparr>)"
      by simp
    with * [of h] show ?thesis by simp
  qed
  show "checkTopology T L (snd (checkTopology T L s)) = checkTopology T L s"
  proof (cases "drawSource s = []")
    case True
    then show ?thesis by (simp add: checkTopology_def)
  next
    case False
    from checkTopology_shape [OF this, of T L] obtain r h where
      *: "\<And>h0. checkTopology T L (s\<lparr>highlightSource := h0\<rparr>) = (r, s\<lparr>highlightSource := h\<rparr>)"
      by blast
    from * [of "highlightSource s"] have 1: "checkTopology T L s = (r, s\<lparr>highlightSource := h\<rparr>)"
      by simp
    with * [of h] show ?thesis by simp
  qed
qed

section \<open>Concrete runs\<close>

text \<open>The defining equations that a concrete run unfolds.\<close>

lemmas run_defs =
  checkTopology_v1_def checkTopology_def drawn_def sample_turf_def toTurf_def selfCheck_def
  checkPolygonSelf_def checkLineSelf_def polygonRing_def lineCoords_def push_def
  pairCheck_v1_def pairCheck_def overlapStep_def crossStep_v1_def crossStep_def intersectStep_def
  containsStep_v1_def containsStep_def adjacentStep_def gapStep_def linePolygonStep_def
  polygonLineStep_def danglingStep_def endpoints_def endpointDistance_def boundaryStep_def
  groupCheck_def flagged_def noted_def set_add_def planarDistance_def ringArea_def Let_def

section \<open>Properties of checkTopology: what the check leaves alone\<close>

lemma set_highlightFeatures: "set (highlightFeatures fs idxs) \<subseteq> geom ` set fs"
  by (induction idxs) auto

lemma checkTopology_v1_highlight:
  "drawSource s \<noteq> [] \<Longrightarrow>
     \<exists>h. snd (checkTopology_v1 T L s) = s\<lparr>highlightSource := h\<rparr> \<and> set h \<subseteq> geom ` set (drawSource s)"
  using set_highlightFeatures [of "drawSource s"]
  by (auto simp: checkTopology_v1_def Let_def split: sum.splits prod.splits)

lemma checkTopology_highlight:
  "drawSource s \<noteq> [] \<Longrightarrow>
     \<exists>h. snd (checkTopology T L s) = s\<lparr>highlightSource := h\<rparr> \<and> set h \<subseteq> geom ` set (drawSource s)"
  using set_highlightFeatures [of "drawSource s"]
  by (auto simp: checkTopology_def Let_def split: sum.splits prod.splits)

text \<open>
  C10. The topology check changes nothing but the highlight source, in both listings. On an
  empty collection it reports that there is nothing to check and returns the state as it is.
  Otherwise the state it returns differs from the given one in the highlight source only,
  which then holds geometries of drawn features and nothing else. The drawn features, their
  geometries and their order are the same before and after the run.
\<close>

theorem checkTopology_frame:
  "(drawSource s = [] \<longrightarrow>
      checkTopology_v1 T L s = (Inr NoFeatures, s) \<and> checkTopology T L s = (Inr NoFeatures, s)) \<and>
   (drawSource s \<noteq> [] \<longrightarrow>
      (\<exists>h. snd (checkTopology_v1 T L s) = s\<lparr>highlightSource := h\<rparr> \<and>
           set h \<subseteq> geom ` set (drawSource s)) \<and>
      (\<exists>h. snd (checkTopology T L s) = s\<lparr>highlightSource := h\<rparr> \<and>
           set h \<subseteq> geom ` set (drawSource s))) \<and>
   drawSource (snd (checkTopology_v1 T L s)) = drawSource s \<and>
   drawSource (snd (checkTopology T L s)) = drawSource s"
proof (intro conjI impI)
  assume e: "drawSource s = []"
  show "checkTopology_v1 T L s = (Inr NoFeatures, s)" using e by (simp add: checkTopology_v1_def)
  show "checkTopology T L s = (Inr NoFeatures, s)" using e by (simp add: checkTopology_def)
next
  assume n: "drawSource s \<noteq> []"
  show "\<exists>h. snd (checkTopology_v1 T L s) = s\<lparr>highlightSource := h\<rparr> \<and> set h \<subseteq> geom ` set (drawSource s)"
    by (rule checkTopology_v1_highlight [OF n])
  show "\<exists>h. snd (checkTopology T L s) = s\<lparr>highlightSource := h\<rparr> \<and> set h \<subseteq> geom ` set (drawSource s)"
    by (rule checkTopology_highlight [OF n])
next
  show "drawSource (snd (checkTopology_v1 T L s)) = drawSource s"
  proof (cases "drawSource s = []")
    case True
    then show ?thesis by (simp add: checkTopology_v1_def)
  next
    case False
    from checkTopology_v1_highlight [OF this, of T L] show ?thesis by auto
  qed
  show "drawSource (snd (checkTopology T L s)) = drawSource s"
  proof (cases "drawSource s = []")
    case True
    then show ?thesis by (simp add: checkTopology_def)
  next
    case False
    from checkTopology_highlight [OF this, of T L] show ?thesis by auto
  qed
qed

text \<open>An empty collection, and a collection of two points a few centimetres apart.\<close>

theorem checkTopology_frame_witness:
  "checkTopology_v1 sample_turf (\<lambda>c. c) (drawn []) = (Inr NoFeatures, drawn []) \<and>
   checkTopology sample_turf (\<lambda>c. c) (drawn []) = (Inr NoFeatures, drawn []) \<and>
   drawSource (snd (checkTopology_v1 sample_turf (\<lambda>c. c)
       (drawn [\<lparr>fid = 1, geom = Point (10, 20)\<rparr>, \<lparr>fid = 2, geom = Point (10.0000001, 20.0000001)\<rparr>])))
     = [\<lparr>fid = 1, geom = Point (10, 20)\<rparr>, \<lparr>fid = 2, geom = Point (10.0000001, 20.0000001)\<rparr>] \<and>
   highlightSource (snd (checkTopology_v1 sample_turf (\<lambda>c. c)
       (drawn [\<lparr>fid = 1, geom = Point (10, 20)\<rparr>, \<lparr>fid = 2, geom = Point (10.0000001, 20.0000001)\<rparr>])))
     = [Point (10, 20), Point (10.0000001, 20.0000001)]"
proof -
  have e: "drawSource (drawn [] :: real app_state) = []" by (simp add: drawn_def)
  have h: "highlightSource (snd (checkTopology_v1 sample_turf (\<lambda>c. c)
       (drawn [\<lparr>fid = 1, geom = Point (10, 20)\<rparr>, \<lparr>fid = 2, geom = Point (10.0000001, 20.0000001)\<rparr>])))
     = [Point (10, 20), Point (10.0000001, 20.0000001)]"
    by (simp add: run_defs)
  have d: "drawSource (drawn [\<lparr>fid = 1, geom = Point (10, 20)\<rparr>, \<lparr>fid = 2, geom = Point (10.0000001, 20.0000001)\<rparr>] :: real app_state)
     = [\<lparr>fid = 1, geom = Point (10, 20)\<rparr>, \<lparr>fid = 2, geom = Point (10.0000001, 20.0000001)\<rparr>]"
    by (simp add: drawn_def)
  from checkTopology_frame [of "drawn [] :: real app_state" sample_turf "\<lambda>c. c"]
    checkTopology_frame [of "drawn [\<lparr>fid = 1, geom = Point (10, 20)\<rparr>, \<lparr>fid = 2, geom = Point (10.0000001, 20.0000001)\<rparr>] :: real app_state" sample_turf "\<lambda>c. c"]
    e h d
  show ?thesis by simp
qed

section \<open>Exceptions that leave checkTopology\<close>

text \<open>
  C4. The collection with the single polygon whose ring is (0,0), (0,1), (1,0), checked with
  a library whose polygon helper rejects a ring of fewer than four positions: the helper is
  called in the conversion of line 237, outside every \<open>try\<close>, so the exception leaves
  \<open>checkTopology\<close>; no message is reported, and nothing is reported for other features
  of the collection either.
\<close>

theorem unclosed_ring_aborts:
  "checkTopology_v1 sample_turf (\<lambda>c. c) (drawn [\<lparr>fid = 1, geom = Polygon [[(0, 0), (0, 1), (1, 0)]]\<rparr>])
     = (Inl (LibraryError ''four or more positions required''),
        drawn [\<lparr>fid = 1, geom = Polygon [[(0, 0), (0, 1), (1, 0)]]\<rparr>]) \<and>
   fst (checkTopology_v1 sample_turf (\<lambda>c. c)
         (drawn [\<lparr>fid = 1, geom = Polygon [[(0, 0), (0, 1), (1, 0)]]\<rparr>,
                 \<lparr>fid = 2, geom = Point (10, 20)\<rparr>, \<lparr>fid = 3, geom = Point (10, 20)\<rparr>]))
     = Inl (LibraryError ''four or more positions required'')"
  by (simp add: run_defs)

text \<open>
  C8. Two polygons followed by two coincident points, checked with a library whose
  \<open>turf.booleanIntersects\<close> throws: the call of line 398 stands before its \<open>try\<close>, so
  the exception of the first pair leaves \<open>checkTopology\<close> and the messages about the two
  points, which the same run reports with the sample library, are lost.
\<close>

theorem predicate_failure_aborts_scan:
  "fst (checkTopology_v1 failing_intersects (\<lambda>c. c)
         (drawn [\<lparr>fid = 1, geom = Polygon [unit_square]\<rparr>, \<lparr>fid = 2, geom = Polygon [far_square]\<rparr>,
                 \<lparr>fid = 3, geom = Point (10, 20)\<rparr>, \<lparr>fid = 4, geom = Point (10, 20)\<rparr>]))
     = Inl (LibraryError ''predicate failed'') \<and>
   fst (checkTopology_v1 sample_turf (\<lambda>c. c)
         (drawn [\<lparr>fid = 1, geom = Polygon [unit_square]\<rparr>, \<lparr>fid = 2, geom = Polygon [far_square]\<rparr>,
                 \<lparr>fid = 3, geom = Point (10, 20)\<rparr>, \<lparr>fid = 4, geom = Point (10, 20)\<rparr>]))
     = Inr (TopologyErrors [PointsTooClose 3 4 0, PointsTooClose 4 3 0])"
  by (simp add: run_defs failing_intersects_def unit_square_def far_square_def)

section \<open>A rejected feature and the topology check\<close>


end
